theory Spec2Isabelle
  imports Main "HOL-Library.Word" "HOL-Library.Signed_Division"
begin

section \<open>Go values, types and the fragment of package reflect that cacher.go uses\<close>

text \<open>
  The cache stores and returns values of type \<^verbatim>\<open>interface{}\<close>. The embedding covers the
  types bool, int, uint (64 bit), string, []byte, pointers to these, and the empty interface
  as the static type of a variable; float64, named types, structs, arrays and maps are
  outside it. A Go string is a byte sequence, and so is an Isabelle \<open>string\<close>. A []byte
  is \<open>None\<close> when it is the nil slice. \<open>VNil\<close> is the nil interface value: "no data"
  for the producer and "no entry" for the store.
\<close>

type_synonym Duration = "64 word"
type_synonym addr = nat

datatype gotype = TBool | TInt | TUint | TString | TBytes | TPtr gotype | TIface

datatype goval =
    VNil
  | VBool bool
  | VInt "64 word"
  | VUint "64 word"
  | VString string
  | VBytes "string option"
  | VPtr gotype "addr option"

datatype kind = KInvalid | KBool | KInt | KUint | KString | KSlice | KPtr | KInterface

text \<open>A variable: its static type and its content. The heap is the list of all variables,
  an address is an index into it.\<close>

type_synonym cell = "gotype \<times> goval"
type_synonym heap = "cell list"

text \<open>A \<^verbatim>\<open>reflect.Value\<close>: the zero Value, a value that is not addressable (obtained with
  \<^verbatim>\<open>reflect.ValueOf\<close>), or an addressable variable (obtained by \<^verbatim>\<open>Elem\<close> of a pointer).\<close>

datatype rvalue = RInvalid | RTemp goval | RLoc addr

fun kindOf :: "gotype \<Rightarrow> kind" where
  "kindOf TBool = KBool"
| "kindOf TInt = KInt"
| "kindOf TUint = KUint"
| "kindOf TString = KString"
| "kindOf TBytes = KSlice"
| "kindOf (TPtr t) = KPtr"
| "kindOf TIface = KInterface"

text \<open>\<^verbatim>\<open>reflect.TypeOf\<close>: the dynamic type, \<open>None\<close> (a nil Type) for the nil interface.\<close>

fun TypeOf :: "goval \<Rightarrow> gotype option" where
  "TypeOf VNil = None"
| "TypeOf (VBool b) = Some TBool"
| "TypeOf (VInt i) = Some TInt"
| "TypeOf (VUint u) = Some TUint"
| "TypeOf (VString s) = Some TString"
| "TypeOf (VBytes b) = Some TBytes"
| "TypeOf (VPtr t p) = Some (TPtr t)"

text \<open>\<^verbatim>\<open>reflect.Zero(t).Interface()\<close>.\<close>

fun Zero :: "gotype \<Rightarrow> goval" where
  "Zero TBool = VBool False"
| "Zero TInt = VInt 0"
| "Zero TUint = VUint 0"
| "Zero TString = VString []"
| "Zero TBytes = VBytes None"
| "Zero (TPtr t) = VPtr t None"
| "Zero TIface = VNil"

definition ValueOf :: "goval \<Rightarrow> rvalue" where
  "ValueOf v = (if v = VNil then RInvalid else RTemp v)"

text \<open>\<^verbatim>\<open>Value.Type()\<close> panics on the zero Value: \<open>None\<close>. An address outside the heap
  does not exist in Go; the model treats it like the zero Value.\<close>

definition rType :: "heap \<Rightarrow> rvalue \<Rightarrow> gotype option" where
  "rType h rv =
     (case rv of
        RInvalid \<Rightarrow> None
      | RTemp v \<Rightarrow> TypeOf v
      | RLoc a \<Rightarrow> (if a < length h then Some (fst (h ! a)) else None))"

definition rKind :: "heap \<Rightarrow> rvalue \<Rightarrow> kind" where
  "rKind h rv = (case rType h rv of None \<Rightarrow> KInvalid | Some t \<Rightarrow> kindOf t)"

text \<open>\<^verbatim>\<open>Value.Interface()\<close>: the value held, for a variable its current content.\<close>

definition rInterface :: "heap \<Rightarrow> rvalue \<Rightarrow> goval" where
  "rInterface h rv =
     (case rv of
        RInvalid \<Rightarrow> VNil
      | RTemp v \<Rightarrow> v
      | RLoc a \<Rightarrow> (if a < length h then snd (h ! a) else VNil))"

text \<open>\<^verbatim>\<open>Value.Elem()\<close> of a pointer: the variable pointed to, the zero Value for a nil
  pointer.\<close>

definition rElem :: "heap \<Rightarrow> rvalue \<Rightarrow> rvalue" where
  "rElem h rv =
     (case rInterface h rv of
        VPtr t (Some b) \<Rightarrow> RLoc b
      | _ \<Rightarrow> RInvalid)"

text \<open>\<^verbatim>\<open>reflect.New(t).Elem()\<close>: a fresh addressable variable holding the zero value.\<close>

definition rNew :: "heap \<Rightarrow> gotype \<Rightarrow> rvalue \<times> heap" where
  "rNew h t = (RLoc (length h), h @ [(t, Zero t)])"

text \<open>Assignability in the fragment (it has no named types): identical types, or any
  type to the empty interface type.\<close>

definition AssignableTo :: "gotype \<Rightarrow> gotype \<Rightarrow> bool" where
  "AssignableTo src dst = (src = dst \<or> dst = TIface)"

text \<open>\<^verbatim>\<open>to.Set(x)\<close>, where \<open>ty\<close> is the type of the Value \<open>x\<close> (\<open>None\<close> for the zero
  Value): it panics (\<open>None\<close>) unless \<open>to\<close> is addressable and \<open>ty\<close> is assignable
  to the type of \<open>to\<close>. The type of \<^verbatim>\<open>reflect.ValueOf(val)\<close> is the dynamic type of
  \<open>val\<close>, the type of \<^verbatim>\<open>from.Convert(t)\<close> and of \<^verbatim>\<open>reflect.Zero(t)\<close> is \<open>t\<close>.\<close>

definition rSet :: "heap \<Rightarrow> rvalue \<Rightarrow> gotype option \<Rightarrow> goval \<Rightarrow> heap option" where
  "rSet h to ty x =
     (case (to, ty) of
        (RLoc a, Some t) \<Rightarrow>
          (if a < length h \<and> AssignableTo t (fst (h ! a))
           then Some (h[a := (fst (h ! a), x)]) else None)
      | _ \<Rightarrow> None)"

subsection \<open>Conversion\<close>

text \<open>Go's \<^verbatim>\<open>string(rune(r))\<close>: the UTF-8 encoding of a code point, U+FFFD for an invalid
  one.\<close>

definition encodeRune :: "int \<Rightarrow> string" where
  "encodeRune r =
     (if r < 0 \<or> 0x10FFFF < r \<or> (0xD800 \<le> r \<and> r \<le> 0xDFFF)
        then [char_of (0xEF::int), char_of (0xBF::int), char_of (0xBD::int)]
      else if r < 0x80 then [char_of r]
      else if r < 0x800 then [char_of (0xC0 + r div 0x40), char_of (0x80 + r mod 0x40)]
      else if r < 0x10000 then
        [char_of (0xE0 + r div 0x1000), char_of (0x80 + (r div 0x40) mod 0x40),
         char_of (0x80 + r mod 0x40)]
      else
        [char_of (0xF0 + r div 0x40000), char_of (0x80 + (r div 0x1000) mod 0x40),
         char_of (0x80 + (r div 0x40) mod 0x40), char_of (0x80 + r mod 0x40)])"

text \<open>\<^verbatim>\<open>cvtIntString\<close> and \<^verbatim>\<open>cvtUintString\<close> of package reflect: a number that is not an
  int32 becomes U+FFFD.\<close>

definition runeString :: "int \<Rightarrow> string" where
  "runeString x = (if - (2 ^ 31) \<le> x \<and> x < 2 ^ 31 then encodeRune x else encodeRune (-1))"

text \<open>\<^verbatim>\<open>Type.ConvertibleTo\<close> on the fragment.\<close>

fun ConvertibleTo :: "gotype \<Rightarrow> gotype \<Rightarrow> bool" where
  "ConvertibleTo TIface dst = (dst = TIface)"
| "ConvertibleTo src TIface = True"
| "ConvertibleTo TInt dst = (dst = TInt \<or> dst = TUint \<or> dst = TString)"
| "ConvertibleTo TUint dst = (dst = TInt \<or> dst = TUint \<or> dst = TString)"
| "ConvertibleTo TString dst = (dst = TString \<or> dst = TBytes)"
| "ConvertibleTo TBytes dst = (dst = TString \<or> dst = TBytes)"
| "ConvertibleTo TBool dst = (dst = TBool)"
| "ConvertibleTo (TPtr s) dst = (dst = TPtr s)"

definition CanConvert :: "goval \<Rightarrow> gotype \<Rightarrow> bool" where
  "CanConvert from t = (case TypeOf from of None \<Rightarrow> False | Some ft \<Rightarrow> ConvertibleTo ft t)"

text \<open>\<^verbatim>\<open>from.Convert(t).Interface()\<close>, used only where \<open>CanConvert from t\<close>.\<close>

fun Convert :: "goval \<Rightarrow> gotype \<Rightarrow> goval" where
  "Convert (VInt i) TUint = VUint i"
| "Convert (VInt i) TString = VString (runeString (sint i))"
| "Convert (VUint u) TInt = VInt u"
| "Convert (VUint u) TString = VString (runeString (uint u))"
| "Convert (VString s) TBytes = VBytes (Some s)"
| "Convert (VBytes b) TString = VString (case b of None \<Rightarrow> [] | Some s \<Rightarrow> s)"
| "Convert v t = v"

section \<open>The data of cacher.go\<close>

datatype error =
    ErrEmptyKey
  | ErrNilQueryFunc
  | ErrExpire
  | ErrConverter
  | ErrUnsupported
  | ErrOther string

text \<open>The first five are the errors cacher.go creates itself: an empty key, a nil
  \<^verbatim>\<open>queryFunc\<close>, \<^verbatim>\<open>expire need bigger 0\<close>, an incomplete converter, an unsupported
  conversion. \<open>ErrOther\<close> is any error of the store, the producer or a converter.\<close>

record TypeConverter =
  SrcType :: goval
  DstType :: goval
  Fn :: "(goval \<Rightarrow> error + goval) option"

text \<open>The struct \<^verbatim>\<open>Option\<close>.\<close>

record Option_c =
  Expire :: Duration
  NilData :: goval
  NilCacheExpire :: Duration
  Converters :: "TypeConverter list"

type_synonym typePair = "gotype \<times> gotype"

text \<open>A \<open>typePair\<close> is \<open>(DstType, SrcType)\<close>, in the order of the struct's fields.\<close>

text \<open>The interface \<^verbatim>\<open>Repo\<close> over a store state \<open>'s\<close>; the context argument is left out.
  \<open>Get\<close> returns \<open>Inr VNil\<close> when there is no entry.\<close>

record 's Repo =
  repo_Get :: "'s \<Rightarrow> string \<Rightarrow> (error + goval) \<times> 's"
  repo_Set :: "'s \<Rightarrow> string \<Rightarrow> goval \<Rightarrow> Duration \<Rightarrow> error option \<times> 's"
  repo_Del :: "'s \<Rightarrow> string \<Rightarrow> error option \<times> 's"

text \<open>\<^verbatim>\<open>Cacher\<close>. The singleflight group has no state between calls (it forgets a key when
  the call for it completes), so a call that runs alone finds it empty.\<close>

record 's Cacher =
  repo :: "'s Repo"
  expire :: Duration
  typeConv :: "typePair \<rightharpoonup> TypeConverter"

text \<open>What a call can observe and change: the variables, the store, and a log of the
  calls made to the store and to the producer.\<close>

datatype event = EvGet string | EvQuery | EvSet string goval Duration | EvDel string

record 's world =
  heap :: heap
  store :: 's
  log :: "event list"

datatype 's outcome =
    Diverges
  | Panics "'s world"
  | Returns bool "error option" "'s world"

section \<open>The operations of cacher.go\<close>

subsection \<open>Registration and construction\<close>

text \<open>\<^verbatim>\<open>RegisterConverter\<close>: a converter with a nil field is refused, any other one replaces
  the entry of its pair.\<close>

definition RegisterConverter :: "'s Cacher \<Rightarrow> TypeConverter \<Rightarrow> error option \<times> 's Cacher" where
  "RegisterConverter c converter =
     (case (TypeOf (SrcType converter), TypeOf (DstType converter), Fn converter) of
        (Some st, Some dt, Some f) \<Rightarrow>
          (None, c\<lparr>typeConv := (typeConv c)((dt, st) \<mapsto> converter)\<rparr>)
      | _ \<Rightarrow> (Some ErrConverter, c))"

text \<open>The loop of \<^verbatim>\<open>New\<close> over the default converters; an error of a registration is a
  panic (\<open>None\<close>).\<close>

fun registerAll :: "'s Cacher \<Rightarrow> TypeConverter list \<Rightarrow> 's Cacher option" where
  "registerAll c [] = Some c"
| "registerAll c (conv # convs) =
     (case RegisterConverter c conv of
        (Some err, c') \<Rightarrow> None
      | (None, c') \<Rightarrow> registerAll c' convs)"

text \<open>\<^verbatim>\<open>New\<close>. The package variable \<^verbatim>\<open>typeConverters\<close> (eight converters built on package
  strconv) is a parameter.\<close>

definition New :: "TypeConverter list \<Rightarrow> 's Repo \<Rightarrow> Duration \<Rightarrow> 's Cacher option" where
  "New typeConverters r e =
     (if sint e \<le> 0 then None
      else registerAll \<lparr>repo = r, expire = e, typeConv = Map.empty\<rparr> typeConverters)"

definition Valid :: "Option_c \<Rightarrow> error option" where
  "Valid opt = (if sint (Expire opt) \<le> 0 then Some ErrExpire else None)"

definition isCacheNil :: "Option_c \<Rightarrow> bool" where
  "isCacheNil opt = (0 < sint (NilCacheExpire opt))"

subsection \<open>Following pointers\<close>

text \<open>\<^verbatim>\<open>indirect\<close> loops while the value is a pointer. On a chain of pointers that is
  cyclic it does not return: \<open>None\<close>.\<close>

partial_function (option) indirect :: "heap \<Rightarrow> rvalue \<Rightarrow> rvalue option" where
  "indirect h reflectValue =
     (if rKind h reflectValue = KPtr then indirect h (rElem h reflectValue)
      else Some reflectValue)"

declare indirect.simps [code]

fun indirectType :: "gotype \<Rightarrow> gotype" where
  "indirectType (TPtr t) = indirectType t"
| "indirectType t = t"

subsection \<open>The random draw and the singleflight group\<close>

text \<open>\<^verbatim>\<open>rand.Int63n(n)\<close> of package math/rand panics (\<open>None\<close>) if \<open>n \<le> 0\<close> and returns
  a number in \<open>[0, n)\<close> otherwise: the generator's accepted 63-bit draw \<open>r\<close> modulo \<open>n\<close>.\<close>

definition Int63n :: "int \<Rightarrow> nat \<Rightarrow> Duration option" where
  "Int63n n r = (if n \<le> 0 then None else Some (word_of_int (int r mod n)))"

text \<open>The function handed to \<^verbatim>\<open>c.sf.Do\<close> (lines 194 to 222): its result is a panic
  (\<open>None\<close>), an error or a value, with the world it leaves. A call that runs alone finds
  no call in flight for its key, and \<^verbatim>\<open>Do\<close> runs the function once and returns its result.\<close>

definition sfDo ::
  "'s Cacher \<Rightarrow> Option_c \<Rightarrow> gotype \<Rightarrow> string \<Rightarrow> (unit \<Rightarrow> error + goval) \<Rightarrow> nat \<Rightarrow> 's world
     \<Rightarrow> (error + goval) option \<times> 's world" where
  "sfDo c opt toType key queryFunc r w =
     (let w1 = w\<lparr>log := log w @ [EvQuery]\<rparr> in
      case queryFunc () of
        Inl err \<Rightarrow> (Some (Inl err), w1)
      | Inr queryData \<Rightarrow>
          if queryData = VNil then
            if \<not> isCacheNil opt then (Some (Inr VNil), w1)
            else
              let nilFrom = (if NilData opt \<noteq> VNil then NilData opt else Zero toType);
                  (res, s') = repo_Set (repo c) (store w1) key nilFrom (NilCacheExpire opt);
                  w2 = w1\<lparr>store := s', log := log w1 @ [EvSet key nilFrom (NilCacheExpire opt)]\<rparr>
              in (case res of Some err \<Rightarrow> (Some (Inl err), w2) | None \<Rightarrow> (Some (Inr nilFrom), w2))
          else
            (case Int63n (sint (Expire opt) sdiv 10) r of
               None \<Rightarrow> (None, w1)
             | Some jitter \<Rightarrow>
                 let cacheExpire = Expire opt + jitter;
                     (res, s') = repo_Set (repo c) (store w1) key queryData cacheExpire;
                     w2 = w1\<lparr>store := s', log := log w1 @ [EvSet key queryData cacheExpire]\<rparr>
                 in (case res of Some err \<Rightarrow> (Some (Inl err), w2) | None \<Rightarrow> (Some (Inr queryData), w2))))"

subsection \<open>Coercion into the destination (lines 232 to 266)\<close>

text \<open>\<^verbatim>\<open>to.Set(x)\<close> followed by \<^verbatim>\<open>return useCache, nil\<close>.\<close>

definition setReturn ::
  "rvalue \<Rightarrow> gotype option \<Rightarrow> goval \<Rightarrow> bool \<Rightarrow> 's world \<Rightarrow> 's outcome" where
  "setReturn to ty x useCache w =
     (case rSet (heap w) to ty x of
        None \<Rightarrow> Panics w
      | Some h' \<Rightarrow> Returns useCache None (w\<lparr>heap := h'\<rparr>))"

text \<open>The body shared by the two places that apply a converter; calling a nil \<^verbatim>\<open>Fn\<close>
  panics.\<close>

definition applyConv :: "TypeConverter \<Rightarrow> goval \<Rightarrow> rvalue \<Rightarrow> bool \<Rightarrow> 's world \<Rightarrow> 's outcome" where
  "applyConv conv from to useCache w =
     (case Fn conv of
        None \<Rightarrow> Panics w
      | Some f \<Rightarrow>
          (case f from of
             Inl err \<Rightarrow> Returns False (Some err) w
           | Inr val \<Rightarrow>
               if val \<noteq> VNil then setReturn to (TypeOf val) val useCache w
               else (case rType (heap w) to of
                       None \<Rightarrow> Panics w
                     | Some t \<Rightarrow> setReturn to (Some t) (Zero t) useCache w)))"

text \<open>What follows the loop over \<^verbatim>\<open>opt.Converters\<close>: the conversion of the language, then
  the registered converter of the pair.\<close>

definition convertOrRegistry ::
  "'s Cacher \<Rightarrow> goval \<Rightarrow> gotype \<Rightarrow> rvalue \<Rightarrow> gotype \<Rightarrow> bool \<Rightarrow> 's world \<Rightarrow> 's outcome" where
  "convertOrRegistry c from fromType to toType useCache w =
     (if CanConvert from toType then setReturn to (Some toType) (Convert from toType) useCache w
      else (case typeConv c (toType, fromType) of
              Some conv \<Rightarrow> applyConv conv from to useCache w
            | None \<Rightarrow> Returns False (Some ErrUnsupported) w))"

text \<open>The test of line 235: the converter is for exactly this pair of types.\<close>

definition pairMatches :: "gotype \<Rightarrow> gotype \<Rightarrow> TypeConverter \<Rightarrow> bool" where
  "pairMatches fromType toType conv =
     (Some fromType = TypeOf (SrcType conv) \<and> Some toType = TypeOf (DstType conv))"

fun convLoop ::
  "TypeConverter list \<Rightarrow> 's Cacher \<Rightarrow> goval \<Rightarrow> gotype \<Rightarrow> rvalue \<Rightarrow> gotype \<Rightarrow> bool \<Rightarrow> 's world
     \<Rightarrow> 's outcome" where
  "convLoop [] c from fromType to toType useCache w =
     convertOrRegistry c from fromType to toType useCache w"
| "convLoop (conv # convs) c from fromType to toType useCache w =
     (if pairMatches fromType toType conv
      then applyConv conv from to useCache w
      else convLoop convs c from fromType to toType useCache w)"

text \<open>\<^verbatim>\<open>from.Type()\<close> panics on the zero Value; \<open>from\<close> is never the nil interface where
  \<open>coerce\<close> is used.\<close>

definition coerce ::
  "'s Cacher \<Rightarrow> Option_c \<Rightarrow> goval \<Rightarrow> rvalue \<Rightarrow> gotype \<Rightarrow> bool \<Rightarrow> 's world \<Rightarrow> 's outcome" where
  "coerce c opt from to toType useCache w =
     (case TypeOf from of
        None \<Rightarrow> Panics w
      | Some ft \<Rightarrow> convLoop (Converters opt) c from (indirectType ft) to toType useCache w)"

subsection \<open>GetWithOption\<close>

text \<open>Lines 184 to 231 and the coercion: the probe of the store, and on a miss the
  producer.\<close>

definition probe ::
  "'s Cacher \<Rightarrow> Option_c \<Rightarrow> string \<Rightarrow> (unit \<Rightarrow> error + goval) \<Rightarrow> rvalue \<Rightarrow> gotype \<Rightarrow> nat
     \<Rightarrow> 's world \<Rightarrow> 's outcome" where
  "probe c opt key queryFunc to toType r w =
     (let (res, s1) = repo_Get (repo c) (store w) key;
          w1 = w\<lparr>store := s1, log := log w @ [EvGet key]\<rparr>
      in case res of
           Inl err \<Rightarrow> Returns False (Some err) w1
         | Inr cacheData \<Rightarrow>
             if cacheData = VNil then
               (case sfDo c opt toType key queryFunc r w1 of
                  (None, w2) \<Rightarrow> Panics w2
                | (Some (Inl err), w2) \<Rightarrow> Returns False (Some err) w2
                | (Some (Inr sfVal), w2) \<Rightarrow>
                    if sfVal = VNil then Returns False None w2
                    else coerce c opt sfVal to toType False w2)
             else coerce c opt cacheData to toType True w1)"

text \<open>The deferred \<^verbatim>\<open>oldTo.Set(to)\<close> of lines 179 to 181 runs when the function returns
  and when it panics.\<close>

definition deferred :: "rvalue \<Rightarrow> rvalue \<Rightarrow> 's outcome \<Rightarrow> 's outcome" where
  "deferred oldTo to out =
     (case out of
        Diverges \<Rightarrow> Diverges
      | Panics w \<Rightarrow>
          (case rSet (heap w) oldTo (rType (heap w) to) (rInterface (heap w) to) of
             None \<Rightarrow> Panics w
           | Some h' \<Rightarrow> Panics (w\<lparr>heap := h'\<rparr>))
      | Returns useCache err w \<Rightarrow>
          (case rSet (heap w) oldTo (rType (heap w) to) (rInterface (heap w) to) of
             None \<Rightarrow> Panics w
           | Some h' \<Rightarrow> Returns useCache err (w\<lparr>heap := h'\<rparr>)))"

definition finish :: "rvalue option \<Rightarrow> rvalue \<Rightarrow> 's outcome \<Rightarrow> 's outcome" where
  "finish oldTo to out = (case oldTo of None \<Rightarrow> out | Some old \<Rightarrow> deferred old to out)"

text \<open>Lines 172 to 182: the variable the result is written to, the type to convert to,
  the variable of the deferred assignment if there is one, and the heap. \<^verbatim>\<open>to.Type()\<close>
  panics when the destination is nil or a nil pointer; \<^verbatim>\<open>reflect.TypeOf\<close> of an empty
  interface variable is nil, and \<^verbatim>\<open>indirectType\<close> panics on it.\<close>

datatype resolution = NoReturn | Panicked | Slot rvalue gotype "rvalue option" heap

definition resolve :: "heap \<Rightarrow> goval \<Rightarrow> resolution" where
  "resolve h v =
     (case indirect h (ValueOf v) of
        None \<Rightarrow> NoReturn
      | Some to \<Rightarrow>
          (case rType h to of
             None \<Rightarrow> Panicked
           | Some t \<Rightarrow>
               if kindOf (indirectType t) = KInterface then
                 (case TypeOf (rInterface h to) of
                    None \<Rightarrow> Panicked
                  | Some d \<Rightarrow>
                      (case rNew h d of (to', h') \<Rightarrow> Slot to' (indirectType d) (Some to) h'))
               else Slot to (indirectType t) None h))"

text \<open>Lines 164 to 167: the option of the call.\<close>

definition buildOption :: "'s Cacher \<Rightarrow> (Option_c \<Rightarrow> Option_c) option \<Rightarrow> Option_c" where
  "buildOption c optFn =
     (let opt = \<lparr>Expire = expire c, NilData = VNil, NilCacheExpire = 0, Converters = []\<rparr>
      in (case optFn of None \<Rightarrow> opt | Some f \<Rightarrow> f opt))"

text \<open>\<^verbatim>\<open>GetWithOption\<close>. A nil \<^verbatim>\<open>queryFunc\<close> or \<^verbatim>\<open>optFn\<close> is \<open>None\<close>; \<open>v\<close> is the
  destination as the caller passes it, \<open>r\<close> the draw of the random generator.\<close>

definition GetWithOption ::
  "'s Cacher \<Rightarrow> string \<Rightarrow> (unit \<Rightarrow> error + goval) option \<Rightarrow> goval
     \<Rightarrow> (Option_c \<Rightarrow> Option_c) option \<Rightarrow> nat \<Rightarrow> 's world \<Rightarrow> 's outcome" where
  "GetWithOption c key queryFunc v optFn r w =
     (if key = [] then Returns False (Some ErrEmptyKey) w
      else (case queryFunc of
        None \<Rightarrow> Returns False (Some ErrNilQueryFunc) w
      | Some q \<Rightarrow>
          (case Valid (buildOption c optFn) of
             Some err \<Rightarrow> Returns False (Some err) w
           | None \<Rightarrow>
               (case resolve (heap w) v of
                  NoReturn \<Rightarrow> Diverges
                | Panicked \<Rightarrow> Panics w
                | Slot to toType oldTo h' \<Rightarrow>
                    finish oldTo to
                      (probe c (buildOption c optFn) key q to toType r (w\<lparr>heap := h'\<rparr>))))))"

definition Get ::
  "'s Cacher \<Rightarrow> string \<Rightarrow> (unit \<Rightarrow> error + goval) option \<Rightarrow> goval \<Rightarrow> nat \<Rightarrow> 's world
     \<Rightarrow> 's outcome" where
  "Get c key queryFn v r w = GetWithOption c key queryFn v None r w"

definition Del :: "'s Cacher \<Rightarrow> string \<Rightarrow> 's world \<Rightarrow> error option \<times> 's world" where
  "Del c key w =
     (let (res, s') = repo_Del (repo c) (store w) key
      in (res, w\<lparr>store := s', log := log w @ [EvDel key]\<rparr>))"

subsection \<open>The store of the README and a store that refuses every write\<close>

text \<open>\<^verbatim>\<open>localRepo\<close> of README.md: a map from keys to values that ignores the expiry.\<close>

definition localRepo :: "(string \<rightharpoonup> goval) Repo" where
  "localRepo =
     \<lparr>repo_Get = (\<lambda>cache key. (case cache key of None \<Rightarrow> Inr VNil | Some data \<Rightarrow> Inr data, cache)),
      repo_Set = (\<lambda>cache key val e. (None, cache(key \<mapsto> val))),
      repo_Del = (\<lambda>cache key. (None, cache(key := None)))\<rparr>"

definition readOnlyRepo :: "(string \<rightharpoonup> goval) Repo" where
  "readOnlyRepo = localRepo\<lparr>repo_Set := (\<lambda>cache key val e. (Some (ErrOther ''read only''), cache))\<rparr>"

text \<open>The cache of the README, ten seconds of default expiry, with an empty registry.\<close>

definition exampleCacher :: "(string \<rightharpoonup> goval) Cacher" where
  "exampleCacher = \<lparr>repo = localRepo, expire = 10000000000, typeConv = Map.empty\<rparr>"

text \<open>Producers, worlds and option mutators of the examples: a destination variable of
  type int holding 5 or of type \<^verbatim>\<open>interface{}\<close> holding the int 7, at address 0.\<close>

definition produce42 :: "unit \<Rightarrow> error + goval" where
  "produce42 = (\<lambda>u. Inr (VInt 42))"

definition produceNothing :: "unit \<Rightarrow> error + goval" where
  "produceNothing = (\<lambda>u. Inr VNil)"

definition readOnlyCacher :: "(string \<rightharpoonup> goval) Cacher" where
  "readOnlyCacher = exampleCacher\<lparr>repo := readOnlyRepo\<rparr>"

definition intWorld :: "(string \<rightharpoonup> goval) world" where
  "intWorld = \<lparr>heap = [(TInt, VInt 5)], store = Map.empty, log = []\<rparr>"

definition ifaceWorld :: "(string \<rightharpoonup> goval) world" where
  "ifaceWorld = \<lparr>heap = [(TIface, VInt 7)], store = Map.empty, log = []\<rparr>"

definition boolEntryWorld :: "(string \<rightharpoonup> goval) world" where
  "boolEntryWorld = \<lparr>heap = [(TInt, VInt 5)], store = [''k'' \<mapsto> VBool True], log = []\<rparr>"

definition intEntryWorld :: "(string \<rightharpoonup> goval) world" where
  "intEntryWorld = \<lparr>heap = [(TInt, VInt 5)], store = [''k'' \<mapsto> VInt 42], log = []\<rparr>"

definition expireMax :: "Option_c \<Rightarrow> Option_c" where
  "expireMax opt = opt\<lparr>Expire := 0x7FFFFFFFFFFFFFFF\<rparr>"

definition cacheNil :: "Option_c \<Rightarrow> Option_c" where
  "cacheNil opt = opt\<lparr>NilCacheExpire := 1000000000\<rparr>"

definition cacheNilAsBool :: "Option_c \<Rightarrow> Option_c" where
  "cacheNilAsBool opt = opt\<lparr>NilData := VBool True, NilCacheExpire := 1000000000\<rparr>"






section \<open>What a call leaves behind\<close>

text \<open>The world of an outcome; a call that does not return has none.\<close>

fun outWorld :: "'s outcome \<Rightarrow> 's world option" where
  "outWorld Diverges = None"
| "outWorld (Panics w) = Some w"
| "outWorld (Returns useCache err w) = Some w"

text \<open>What a call returns, if it returns.\<close>

fun returned :: "'s outcome \<Rightarrow> (bool \<times> error option) option" where
  "returned Diverges = None"
| "returned (Panics w) = None"
| "returned (Returns useCache err w) = Some (useCache, err)"


text \<open>\<open>heapOnly w w'\<close>: the world \<open>w'\<close> differs from \<open>w\<close> at most in the contents of
  variables. \<open>coerced useCache w out\<close>: the outcome \<open>out\<close> left the store and the log of
  \<open>w\<close> alone, and reports \<open>useCache\<close> exactly when it reports no error.\<close>

definition heapOnly :: "'s world \<Rightarrow> 's world \<Rightarrow> bool" where
  "heapOnly w w' = (store w' = store w \<and> log w' = log w \<and> map fst (heap w') = map fst (heap w))"

fun coerced :: "bool \<Rightarrow> 's world \<Rightarrow> 's outcome \<Rightarrow> bool" where
  "coerced useCache w Diverges = False"
| "coerced useCache w (Panics w') = heapOnly w w'"
| "coerced useCache w (Returns uc err w') = (heapOnly w w' \<and> uc = (useCache \<and> err = None))"

section \<open>Lemmas on the parts of GetWithOption\<close>

lemma indirect_not_ptr:
  assumes "indirect h rv = Some to"
  shows "rKind h to \<noteq> KPtr"
proof (rule indirect.raw_induct [where P = "\<lambda>h rv to. rKind h to \<noteq> KPtr", OF _ assms])
  fix f h' rv' y
  assume ih: "\<And>h rv y. f h rv = Some y \<Longrightarrow> rKind h y \<noteq> KPtr"
    and step: "(if rKind h' rv' = KPtr then f h' (rElem h' rv') else Some rv') = Some y"
  show "rKind h' y \<noteq> KPtr"
  proof (cases "rKind h' rv' = KPtr")
    case True
    with step have "f h' (rElem h' rv') = Some y" by simp
    then show ?thesis by (rule ih)
  next
    case False
    with step show ?thesis by simp
  qed
qed

lemma indirectType_id: "kindOf t \<noteq> KPtr \<Longrightarrow> indirectType t = t"
  by (cases t) auto

lemma TypeOf_not_iface: "TypeOf x \<noteq> Some TIface"
  by (cases x) auto

lemma resolve_iface:
  assumes "resolve h v = Slot to toType (Some old) h'"
  shows "\<exists>a d. old = RLoc a \<and> a < length h \<and> fst (h ! a) = TIface \<and> TypeOf (snd (h ! a)) = Some d
           \<and> to = RLoc (length h) \<and> h' = h @ [(d, Zero d)] \<and> toType = indirectType d"
proof -
  from assms obtain t where ind: "indirect h (ValueOf v) = Some old" and ty: "rType h old = Some t"
    and k: "kindOf (indirectType t) = KInterface"
    by (auto simp: resolve_def rNew_def split: option.splits if_splits)
  from indirect_not_ptr [OF ind] ty have "kindOf t \<noteq> KPtr"
    by (simp add: rKind_def)
  with k have t: "t = TIface"
    by (cases t) (auto simp: indirectType_id)
  with ty obtain a where a: "old = RLoc a" "a < length h" "fst (h ! a) = TIface"
    by (cases old) (auto simp: rType_def TypeOf_not_iface split: if_splits)
  with assms ind ty t show ?thesis
    by (auto simp: resolve_def rNew_def rInterface_def split: option.splits if_splits)
qed

lemma resolve_plain: "resolve h v = Slot to toType None h' \<Longrightarrow> h' = h"
  by (auto simp: resolve_def rNew_def split: option.splits if_splits)

lemma rSet_shape: "rSet h to ty x = Some h' \<Longrightarrow> map fst h' = map fst h"
  by (auto simp: rSet_def map_update list_update_same_conv
      split: rvalue.splits option.splits if_splits)


lemma heapOnly_refl: "heapOnly w w"
  by (simp add: heapOnly_def)

lemma setReturn_coerced: "coerced uc w (setReturn to ty x uc w)"
  by (auto simp: setReturn_def heapOnly_def dest: rSet_shape split: option.splits)

lemma applyConv_coerced: "coerced uc w (applyConv conv from to uc w)"
  by (auto simp: applyConv_def heapOnly_refl setReturn_coerced split: option.splits sum.splits)

lemma convertOrRegistry_coerced: "coerced uc w (convertOrRegistry c from fromType to toType uc w)"
  by (auto simp: convertOrRegistry_def heapOnly_refl setReturn_coerced applyConv_coerced split: option.splits)

lemma convLoop_coerced: "coerced uc w (convLoop convs c from fromType to toType uc w)"
  by (induction convs) (auto simp: convertOrRegistry_coerced applyConv_coerced)

lemma coerce_coerced: "coerced uc w (coerce c opt from to toType uc w)"
  by (auto simp: coerce_def heapOnly_refl convLoop_coerced split: option.splits)


lemma deferred_Returns:
  assumes "a < length (heap w)" "fst (heap w ! a) = TIface" "b < length (heap w)"
  shows "\<exists>hf. deferred (RLoc a) (RLoc b) (Returns uc err w) = Returns uc err (w\<lparr>heap := hf\<rparr>)
           \<and> map fst hf = map fst (heap w)"
  using assms
  by (intro exI [of _ "(heap w)[a := (TIface, rInterface (heap w) (RLoc b))]"])
     (simp add: deferred_def rSet_def rType_def AssignableTo_def map_update
        list_update_same_conv)

lemma deferred_Panics:
  assumes "a < length (heap w)" "fst (heap w ! a) = TIface" "b < length (heap w)"
  shows "\<exists>hf. deferred (RLoc a) (RLoc b) (Panics w) = Panics (w\<lparr>heap := hf\<rparr>)
           \<and> map fst hf = map fst (heap w)"
  using assms
  by (intro exI [of _ "(heap w)[a := (TIface, rInterface (heap w) (RLoc b))]"])
     (simp add: deferred_def rSet_def rType_def AssignableTo_def map_update
        list_update_same_conv)

lemma shape_nth:
  assumes "map fst h1 = map fst h2" "a < length h2"
  shows "a < length h1 \<and> fst (h1 ! a) = fst (h2 ! a)"
proof -
  from assms(1) have len: "length h1 = length h2" by (rule map_eq_imp_length_eq)
  with assms(2) have "a < length h1" by simp
  moreover from this have "fst (h1 ! a) = map fst h1 ! a" by simp
  moreover from assms(2) have "fst (h2 ! a) = map fst h2 ! a" by simp
  ultimately show ?thesis using assms(1) by simp
qed

lemma finish_Returns:
  assumes res: "resolve h v = Slot to toType oldTo h'"
    and shape: "map fst (heap w) = map fst h'"
  shows "\<exists>hf. finish oldTo to (Returns uc err w) = Returns uc err (w\<lparr>heap := hf\<rparr>)
           \<and> map fst hf = map fst h' \<and> (oldTo = None \<longrightarrow> hf = heap w)"
proof (cases oldTo)
  case None
  then show ?thesis using shape by (auto simp: finish_def intro: exI [of _ "heap w"])
next
  case (Some old)
  with res obtain a b where a: "old = RLoc a" "a < length h'" "fst (h' ! a) = TIface"
    and b: "to = RLoc b" "b < length h'"
    by (auto dest!: resolve_iface simp: nth_append)
  from shape_nth [OF shape a(2)] a(3) shape_nth [OF shape b(2)]
  have "a < length (heap w)" "fst (heap w ! a) = TIface" "b < length (heap w)"
    by simp_all
  from deferred_Returns [OF this, of uc err] Some a(1) b(1) shape show ?thesis
    by (auto simp: finish_def)
qed

lemma finish_Panics:
  assumes res: "resolve h v = Slot to toType oldTo h'"
    and shape: "map fst (heap w) = map fst h'"
  shows "\<exists>hf. finish oldTo to (Panics w) = Panics (w\<lparr>heap := hf\<rparr>)
           \<and> map fst hf = map fst h' \<and> (oldTo = None \<longrightarrow> hf = heap w)"
proof (cases oldTo)
  case None
  then show ?thesis using shape by (auto simp: finish_def intro: exI [of _ "heap w"])
next
  case (Some old)
  with res obtain a b where a: "old = RLoc a" "a < length h'" "fst (h' ! a) = TIface"
    and b: "to = RLoc b" "b < length h'"
    by (auto dest!: resolve_iface simp: nth_append)
  from shape_nth [OF shape a(2)] a(3) shape_nth [OF shape b(2)]
  have "a < length (heap w)" "fst (heap w ! a) = TIface" "b < length (heap w)"
    by simp_all
  from deferred_Panics [OF this] Some a(1) b(1) shape show ?thesis
    by (auto simp: finish_def)
qed

lemma GetWithOption_valid:
  assumes "key \<noteq> []" "queryFunc = Some q" "Valid (buildOption c optFn) = None"
    and "resolve (heap w) v = Slot to toType oldTo h'"
  shows "GetWithOption c key queryFunc v optFn r w =
           finish oldTo to (probe c (buildOption c optFn) key q to toType r (w\<lparr>heap := h'\<rparr>))"
  using assms by (simp add: GetWithOption_def)


lemma probe_miss:
  assumes "repo_Get (repo c) (store w) key = (Inr VNil, s1)"
  shows "probe c opt key q to toType r w =
           (case sfDo c opt toType key q r (w\<lparr>store := s1, log := log w @ [EvGet key]\<rparr>) of
              (None, w2) \<Rightarrow> Panics w2
            | (Some (Inl err), w2) \<Rightarrow> Returns False (Some err) w2
            | (Some (Inr sfVal), w2) \<Rightarrow>
                if sfVal = VNil then Returns False None w2
                else coerce c opt sfVal to toType False w2)"
  using assms by (simp add: probe_def)

lemma sdiv_pos: "0 < (k::int) \<Longrightarrow> k sdiv 10 = k div 10"
  by (simp add: signed_divide_int_def)

lemma Int63n_Some:
  assumes "Int63n n r = Some j" "n < 2 ^ 63"
  shows "0 < n \<and> j = word_of_int (int r mod n) \<and> sint j = int r mod n \<and> 0 \<le> sint j \<and> sint j < n"
proof -
  from assms(1) have n: "0 < n" and j: "j = word_of_int (int r mod n)"
    by (auto simp: Int63n_def split: if_splits)
  from n have m: "0 \<le> int r mod n" "int r mod n < n" by simp_all
  with assms(2) have "signed_take_bit (63::nat) (int r mod n) = int r mod n"
    by (intro signed_take_bit_int_eq_self) simp_all
  with j have "sint j = int r mod n" by (simp add: sint_sbintrunc')
  with n j m show ?thesis by simp
qed

lemma jitter_range:
  fixes e :: Duration
  assumes pos: "0 < sint e" and draw: "Int63n (sint e sdiv 10) r = Some j"
    and fits: "sint e + sint e div 10 \<le> 2 ^ 63"
  shows "j = word_of_int (int r mod (sint e div 10)) \<and> 0 \<le> sint j \<and> sint j < sint e div 10
           \<and> sint (e + j) = sint e + sint j"
proof -
  have lt: "sint e < 2 ^ 63" using sint_lt [of e] by simp
  with pos have "sint e div 10 < 2 ^ 63" by simp
  moreover from draw pos have "Int63n (sint e div 10) r = Some j" by (simp add: sdiv_pos)
  ultimately have "0 < sint e div 10 \<and> j = word_of_int (int r mod (sint e div 10))
      \<and> sint j = int r mod (sint e div 10) \<and> 0 \<le> sint j \<and> sint j < sint e div 10"
    by (intro Int63n_Some)
  then have j: "j = word_of_int (int r mod (sint e div 10))" "0 \<le> sint j" "sint j < sint e div 10"
    by blast+
  from pos j fits have "- (2 ^ 63) \<le> sint e + sint j" "sint e + sint j < 2 ^ 63" by simp_all
  then have "signed_take_bit (63::nat) (sint e + sint j) = sint e + sint j"
    by (rule signed_take_bit_int_eq_self)
  then have "sint (e + j) = sint e + sint j" by (simp add: sint_word_add)
  with j show ?thesis by simp
qed

lemma sfDo_genuine:
  assumes "q () = Inr d" "d \<noteq> VNil" "Int63n (sint (Expire opt) sdiv 10) r = Some j"
    and "repo_Set (repo c) (store w) key d (Expire opt + j) = (res, s2)"
  shows "sfDo c opt toType key q r w =
           (case res of Some e \<Rightarrow> Some (Inl e) | None \<Rightarrow> Some (Inr d),
            w\<lparr>store := s2, log := log w @ [EvQuery, EvSet key d (Expire opt + j)]\<rparr>)"
  using assms by (simp add: sfDo_def split: option.splits)

lemma sfDo_no_draw:
  assumes "q () = Inr d" "d \<noteq> VNil" "Int63n (sint (Expire opt) sdiv 10) r = None"
  shows "sfDo c opt toType key q r w = (None, w\<lparr>log := log w @ [EvQuery]\<rparr>)"
  using assms by (simp add: sfDo_def)

lemma sfDo_no_data:
  assumes "q () = Inr VNil" "\<not> isCacheNil opt"
  shows "sfDo c opt toType key q r w = (Some (Inr VNil), w\<lparr>log := log w @ [EvQuery]\<rparr>)"
  using assms by (simp add: sfDo_def)

lemma sfDo_nil_cache:
  assumes "q () = Inr VNil" "isCacheNil opt"
    and "nilFrom = (if NilData opt \<noteq> VNil then NilData opt else Zero toType)"
    and "repo_Set (repo c) (store w) key nilFrom (NilCacheExpire opt) = (res, s2)"
  shows "sfDo c opt toType key q r w =
           (case res of Some e \<Rightarrow> Some (Inl e) | None \<Rightarrow> Some (Inr nilFrom),
            w\<lparr>store := s2, log := log w @ [EvQuery, EvSet key nilFrom (NilCacheExpire opt)]\<rparr>)"
  using assms by (simp add: sfDo_def Let_def split: option.splits)

lemma resolve_pointer_to_variable:
  assumes "a < length h" "fst (h ! a) = t" "kindOf t \<noteq> KPtr" "kindOf t \<noteq> KInterface"
  shows "resolve h (VPtr t (Some a)) = Slot (RLoc a) t None h"
proof -
  have "indirect h (RLoc a) = Some (RLoc a)"
    using assms by (subst indirect.simps) (simp add: rKind_def rType_def)
  then have "indirect h (ValueOf (VPtr t (Some a))) = Some (RLoc a)"
    by (subst indirect.simps) (simp add: ValueOf_def rKind_def rType_def rElem_def rInterface_def)
  with assms show ?thesis
    by (simp add: resolve_def rType_def indirectType_id)
qed

lemma resolve_pointer_to_interface:
  assumes "a < length h" "fst (h ! a) = TIface" "TypeOf (snd (h ! a)) = Some d"
  shows "resolve h (VPtr TIface (Some a)) =
           Slot (RLoc (length h)) (indirectType d) (Some (RLoc a)) (h @ [(d, Zero d)])"
proof -
  have "indirect h (RLoc a) = Some (RLoc a)"
    using assms by (subst indirect.simps) (simp add: rKind_def rType_def)
  then have "indirect h (ValueOf (VPtr TIface (Some a))) = Some (RLoc a)"
    by (subst indirect.simps) (simp add: ValueOf_def rKind_def rType_def rElem_def rInterface_def)
  with assms show ?thesis
    by (simp add: resolve_def rType_def rInterface_def rNew_def)
qed

lemma coerced_outWorld:
  assumes "coerced uc w out"
  shows "\<exists>w'. outWorld out = Some w' \<and> store w' = store w \<and> log w' = log w
           \<and> map fst (heap w') = map fst (heap w)"
  using assms by (cases out) (auto simp: heapOnly_def)

lemma finish_coerced:
  assumes res: "resolve h v = Slot to toType oldTo h'"
    and shape: "map fst (heap w) = map fst h'"
    and co: "coerced uc w out"
  shows "coerced uc w (finish oldTo to out)"
proof (cases out)
  case Diverges
  with co show ?thesis by simp
next
  case (Panics wx)
  with co have hx: "heapOnly w wx" by simp
  with shape have "map fst (heap wx) = map fst h'" by (simp add: heapOnly_def)
  from finish_Panics [OF res this] obtain hf where
    "finish oldTo to (Panics wx) = Panics (wx\<lparr>heap := hf\<rparr>)" "map fst hf = map fst h'" by blast
  with Panics hx shape show ?thesis by (simp add: heapOnly_def)
next
  case (Returns uc' err wx)
  with co have hx: "heapOnly w wx" and u: "uc' = (uc \<and> err = None)" by simp_all
  with shape have "map fst (heap wx) = map fst h'" by (simp add: heapOnly_def)
  from finish_Returns [OF res this] obtain hf where
    "finish oldTo to (Returns uc' err wx) = Returns uc' err (wx\<lparr>heap := hf\<rparr>)"
    "map fst hf = map fst h'" by blast
  with Returns hx u shape show ?thesis by (simp add: heapOnly_def)
qed


lemma GetWithOption_miss_genuine:
  assumes "key \<noteq> []" "queryFunc = Some q" "opt = buildOption c optFn" "Valid opt = None"
    and "resolve (heap w) v = Slot to toType oldTo h'"
    and "repo_Get (repo c) (store w) key = (Inr VNil, s1)"
    and "q () = Inr d" "d \<noteq> VNil" "Int63n (sint (Expire opt) sdiv 10) r = Some j"
    and "repo_Set (repo c) s1 key d (Expire opt + j) = (res, s2)"
    and "w2 = w\<lparr>heap := h', store := s2,
                 log := log w @ [EvGet key, EvQuery, EvSet key d (Expire opt + j)]\<rparr>"
  shows "GetWithOption c key queryFunc v optFn r w =
           finish oldTo to
             (case res of Some e \<Rightarrow> Returns False (Some e) w2
              | None \<Rightarrow> coerce c opt d to toType False w2)"
proof -
  let ?w1 = "w\<lparr>heap := h', store := s1, log := log w @ [EvGet key]\<rparr>"
  have "sfDo c opt toType key q r ?w1 =
          (case res of Some e \<Rightarrow> Some (Inl e) | None \<Rightarrow> Some (Inr d), w2)"
    using sfDo_genuine [of q d opt r j c ?w1 key res s2 toType] assms by simp
  then have "probe c opt key q to toType r (w\<lparr>heap := h'\<rparr>) =
          (case res of Some e \<Rightarrow> Returns False (Some e) w2
           | None \<Rightarrow> coerce c opt d to toType False w2)"
    using assms(6,8) by (simp add: probe_miss split: option.splits)
  then show ?thesis
    using GetWithOption_valid [of key queryFunc q c optFn w v to toType oldTo h' r] assms by simp
qed

lemma GetWithOption_miss_nil_cache:
  assumes "key \<noteq> []" "queryFunc = Some q" "opt = buildOption c optFn" "Valid opt = None"
    and "resolve (heap w) v = Slot to toType oldTo h'"
    and "repo_Get (repo c) (store w) key = (Inr VNil, s1)"
    and "q () = Inr VNil" "isCacheNil opt"
    and "nilFrom = (if NilData opt \<noteq> VNil then NilData opt else Zero toType)"
    and "repo_Set (repo c) s1 key nilFrom (NilCacheExpire opt) = (res, s2)"
    and "w2 = w\<lparr>heap := h', store := s2,
                 log := log w @ [EvGet key, EvQuery, EvSet key nilFrom (NilCacheExpire opt)]\<rparr>"
  shows "GetWithOption c key queryFunc v optFn r w =
           finish oldTo to
             (case res of Some e \<Rightarrow> Returns False (Some e) w2
              | None \<Rightarrow> if nilFrom = VNil then Returns False None w2
                         else coerce c opt nilFrom to toType False w2)"
proof -
  let ?w1 = "w\<lparr>heap := h', store := s1, log := log w @ [EvGet key]\<rparr>"
  have "sfDo c opt toType key q r ?w1 =
          (case res of Some e \<Rightarrow> Some (Inl e) | None \<Rightarrow> Some (Inr nilFrom), w2)"
    using sfDo_nil_cache [of q opt nilFrom toType c ?w1 key res s2 r] assms by simp
  then have "probe c opt key q to toType r (w\<lparr>heap := h'\<rparr>) =
          (case res of Some e \<Rightarrow> Returns False (Some e) w2
           | None \<Rightarrow> if nilFrom = VNil then Returns False None w2
                      else coerce c opt nilFrom to toType False w2)"
    using assms(6) by (simp add: probe_miss split: option.splits)
  then show ?thesis
    using GetWithOption_valid [of key queryFunc q c optFn w v to toType oldTo h' r] assms by simp
qed

lemma GetWithOption_miss_no_data:
  assumes "key \<noteq> []" "queryFunc = Some q" "opt = buildOption c optFn" "Valid opt = None"
    and "resolve (heap w) v = Slot to toType oldTo h'"
    and "repo_Get (repo c) (store w) key = (Inr VNil, s1)"
    and "q () = Inr VNil" "\<not> isCacheNil opt"
  shows "GetWithOption c key queryFunc v optFn r w =
           finish oldTo to
             (Returns False None (w\<lparr>heap := h', store := s1, log := log w @ [EvGet key, EvQuery]\<rparr>))"
proof -
  let ?w1 = "w\<lparr>heap := h', store := s1, log := log w @ [EvGet key]\<rparr>"
  have "sfDo c opt toType key q r ?w1 = (Some (Inr VNil), ?w1\<lparr>log := log ?w1 @ [EvQuery]\<rparr>)"
    using sfDo_no_data [of q opt c toType key r ?w1] assms by simp
  then have "probe c opt key q to toType r (w\<lparr>heap := h'\<rparr>) =
          Returns False None (w\<lparr>heap := h', store := s1, log := log w @ [EvGet key, EvQuery]\<rparr>)"
    using assms(6) by (simp add: probe_miss)
  then show ?thesis
    using GetWithOption_valid [of key queryFunc q c optFn w v to toType oldTo h' r] assms by simp
qed

lemmas example_defs =
  exampleCacher_def localRepo_def readOnlyRepo_def buildOption_def Valid_def isCacheNil_def
  Int63n_def

lemma coerced_returned:
  assumes "coerced uc w out" "returned out = Some (uc', err)"
  shows "uc' = (uc \<and> err = None)"
  using assms by (cases out) auto


lemma no_data_plain_destination_untouched:
  assumes "opt = buildOption c optFn" "Valid opt = None" "key \<noteq> []" "queryFunc = Some q"
    and "q () = Inr VNil" "\<not> isCacheNil opt"
    and "resolve (heap w) v = Slot to toType None h'"
    and "repo_Get (repo c) (store w) key = (Inr VNil, s1)"
  shows "GetWithOption c key queryFunc v optFn r w =
           Returns False None (w\<lparr>store := s1, log := log w @ [EvGet key, EvQuery]\<rparr>)"
  using GetWithOption_miss_no_data [of key queryFunc q opt c optFn w v to toType None h' s1 r]
    assms resolve_plain [OF assms(7)]
  by (simp add: finish_def)




lemma New_example: "New [] localRepo 10000000000 = Some exampleCacher"
  by (simp add: New_def exampleCacher_def)

lemma New_rejects_expire: "sint e \<le> 0 \<Longrightarrow> New convs r e = None"
  by (simp add: New_def)

lemma no_data_interface_destination_reset:
  assumes "opt = buildOption c optFn" "Valid opt = None" "key \<noteq> []" "queryFunc = Some q"
    and "q () = Inr VNil" "\<not> isCacheNil opt"
    and "a < length (heap w)" "fst (heap w ! a) = TIface" "TypeOf (snd (heap w ! a)) = Some d"
    and "repo_Get (repo c) (store w) key = (Inr VNil, s1)"
  shows "GetWithOption c key queryFunc (VPtr TIface (Some a)) optFn r w =
           Returns False None
             (w\<lparr>heap := (heap w @ [(d, Zero d)])[a := (TIface, Zero d)], store := s1,
                log := log w @ [EvGet key, EvQuery]\<rparr>)"
proof -
  have res: "resolve (heap w) (VPtr TIface (Some a)) =
      Slot (RLoc (length (heap w))) (indirectType d) (Some (RLoc a)) (heap w @ [(d, Zero d)])"
    using assms(7-9) by (rule resolve_pointer_to_interface)
  from GetWithOption_miss_no_data [OF assms(3,4,1,2) res assms(10,5,6), of r] assms(7,8)
  show ?thesis
    by (simp add: finish_def deferred_def rSet_def rType_def rInterface_def AssignableTo_def
        nth_append)
qed

lemmas run_defs =
  GetWithOption_def resolve_pointer_to_variable resolve_pointer_to_interface finish_def
  deferred_def probe_def sfDo_def signed_divide_int_def coerce_def convertOrRegistry_def
  CanConvert_def setReturn_def applyConv_def pairMatches_def rSet_def rType_def rInterface_def
  AssignableTo_def

lemmas fixture_defs =
  produce42_def produceNothing_def readOnlyCacher_def intWorld_def ifaceWorld_def
  boolEntryWorld_def intEntryWorld_def expireMax_def cacheNil_def cacheNilAsBool_def

section \<open>The claims\<close>

text \<open>C6: a call with an empty key, a nil producer, or an option whose \<open>Expire\<close> is not
  positive once the mutator has run, returns \<open>false\<close> and one of the three errors of
  lines 158, 161 and 276, and leaves the world as it was: the heap, the store and the log
  are unchanged, so neither \<open>Get\<close> nor \<open>Set\<close> of the store was called.\<close>

theorem C6_invalid_call_touches_nothing:
  assumes "key = [] \<or> queryFunc = None \<or> sint (Expire (buildOption c optFn)) \<le> 0"
  shows "\<exists>e. GetWithOption c key queryFunc v optFn r w = Returns False (Some e) w
           \<and> e \<in> {ErrEmptyKey, ErrNilQueryFunc, ErrExpire}"
  using assms by (auto simp: GetWithOption_def Valid_def split: option.splits)

theorem C6_witness:
  "sint (Expire (buildOption exampleCacher (Some (\<lambda>opt. opt\<lparr>Expire := 0\<rparr>)))) \<le> 0
   \<and> (\<exists>e. GetWithOption exampleCacher ''k'' (Some (\<lambda>u. Inr (VInt 1))) (VPtr TInt (Some 0))
             (Some (\<lambda>opt. opt\<lparr>Expire := 0\<rparr>)) 0 \<lparr>heap = [(TInt, VInt 5)], store = Map.empty, log = []\<rparr>
           = Returns False (Some e) \<lparr>heap = [(TInt, VInt 5)], store = Map.empty, log = []\<rparr>
         \<and> e \<in> {ErrEmptyKey, ErrNilQueryFunc, ErrExpire})"
  using C6_invalid_call_touches_nothing [of "''k''" "Some (\<lambda>u. Inr (VInt 1))" exampleCacher
      "Some (\<lambda>opt. opt\<lparr>Expire := 0\<rparr>)" "VPtr TInt (Some 0)" 0
      "\<lparr>heap = [(TInt, VInt 5)], store = Map.empty, log = []\<rparr>"]
  by (simp add: buildOption_def)

text \<open>C10: an \<open>Expire\<close> of 1 to 9 nanoseconds passes \<open>Valid\<close>; on a miss whose producer
  returns a value the bound \<open>int64(Expire)/10\<close> is 0, \<open>Int63n\<close> panics, and the call
  panics after the probe and the producer, before any \<open>Set\<close>.\<close>

theorem C10_expire_below_ten_panics:
  assumes "opt = buildOption c optFn" "0 < sint (Expire opt)" "sint (Expire opt) < 10"
    and "key \<noteq> []" "queryFunc = Some q" "q () = Inr d" "d \<noteq> VNil"
    and "resolve (heap w) v = Slot to toType oldTo h'"
    and "repo_Get (repo c) (store w) key = (Inr VNil, s1)"
  shows "Valid opt = None \<and> Int63n (sint (Expire opt) sdiv 10) r = None
           \<and> (\<exists>w'. GetWithOption c key queryFunc v optFn r w = Panics w'
                 \<and> store w' = s1 \<and> log w' = log w @ [EvGet key, EvQuery])"
proof -
  from assms(2) have valid: "Valid opt = None" by (simp add: Valid_def)
  from assms(2,3) have nodraw: "Int63n (sint (Expire opt) sdiv 10) r = None"
    by (simp add: Int63n_def sdiv_pos)
  let ?w1 = "w\<lparr>heap := h', store := s1, log := log w @ [EvGet key]\<rparr>"
  let ?w2 = "?w1\<lparr>log := log ?w1 @ [EvQuery]\<rparr>"
  have "probe c opt key q to toType r (w\<lparr>heap := h'\<rparr>) = Panics ?w2"
    using assms(9) sfDo_no_draw [of q d opt r c toType key ?w1] assms(6,7) nodraw
    by (simp add: probe_miss)
  then have "GetWithOption c key queryFunc v optFn r w = finish oldTo to (Panics ?w2)"
    using GetWithOption_valid [of key queryFunc q c optFn w v to toType oldTo h' r] assms valid
    by simp
  moreover from finish_Panics [OF assms(8), of ?w2]
  obtain hf where "finish oldTo to (Panics ?w2) = Panics (?w2\<lparr>heap := hf\<rparr>)" by auto
  ultimately show ?thesis using valid nodraw by simp
qed

theorem C10_witness:
  "\<exists>w'. GetWithOption exampleCacher ''k'' (Some (\<lambda>u. Inr (VInt 42))) (VPtr TInt (Some 0))
          (Some (\<lambda>opt. opt\<lparr>Expire := 9\<rparr>)) 3 \<lparr>heap = [(TInt, VInt 5)], store = Map.empty, log = []\<rparr>
        = Panics w' \<and> log w' = [EvGet ''k'', EvQuery]"
proof -
  let ?w = "\<lparr>heap = [(TInt, VInt 5)], store = Map.empty :: string \<rightharpoonup> goval, log = []\<rparr>"
  let ?f = "\<lambda>opt. opt\<lparr>Expire := 9\<rparr>"
  have res: "resolve (heap ?w) (VPtr TInt (Some 0)) = Slot (RLoc 0) TInt None [(TInt, VInt 5)]"
    by (simp add: resolve_pointer_to_variable)
  have get: "repo_Get (repo exampleCacher) (store ?w) ''k'' = (Inr VNil, Map.empty)"
    by (simp add: example_defs)
  have pos: "0 < sint (Expire (buildOption exampleCacher (Some ?f)))"
    and small: "sint (Expire (buildOption exampleCacher (Some ?f))) < 10"
    by (simp_all add: example_defs)
  from C10_expire_below_ten_panics [of "buildOption exampleCacher (Some ?f)" exampleCacher "Some ?f"
      "''k''" "Some (\<lambda>u. Inr (VInt 42))" "\<lambda>u. Inr (VInt 42)" "VInt 42" ?w "VPtr TInt (Some 0)"
      "RLoc 0" TInt None "[(TInt, VInt 5)]" Map.empty 3, OF refl pos small _ refl refl _ res get]
  show ?thesis by auto
qed

text \<open>C8: when the producer returns a value and the \<open>Set\<close> that follows fails with
  \<open>e\<close>, the call returns \<open>false\<close> and \<open>e\<close>, after exactly the probe, the producer and
  that \<open>Set\<close>. This holds for every destination that resolves.\<close>

theorem C8_failed_write_fails_call:
  assumes "opt = buildOption c optFn" "Valid opt = None" "key \<noteq> []" "queryFunc = Some q"
    and "q () = Inr d" "d \<noteq> VNil"
    and "resolve (heap w) v = Slot to toType oldTo h'"
    and "repo_Get (repo c) (store w) key = (Inr VNil, s1)"
    and "Int63n (sint (Expire opt) sdiv 10) r = Some jitter"
    and "repo_Set (repo c) s1 key d (Expire opt + jitter) = (Some e, s2)"
  shows "\<exists>w'. GetWithOption c key queryFunc v optFn r w = Returns False (Some e) w'
           \<and> store w' = s2
           \<and> log w' = log w @ [EvGet key, EvQuery, EvSet key d (Expire opt + jitter)]"
proof -
  let ?w2 = "w\<lparr>heap := h', store := s2,
               log := log w @ [EvGet key, EvQuery, EvSet key d (Expire opt + jitter)]\<rparr>"
  have "GetWithOption c key queryFunc v optFn r w = finish oldTo to (Returns False (Some e) ?w2)"
    using GetWithOption_miss_genuine [of key queryFunc q opt c optFn w v to toType oldTo h' s1 d r
        jitter "Some e" s2 ?w2] assms by simp
  moreover from finish_Returns [OF assms(7), of ?w2 False "Some e"]
  obtain hf where "finish oldTo to (Returns False (Some e) ?w2) = Returns False (Some e) (?w2\<lparr>heap := hf\<rparr>)"
    by auto
  ultimately show ?thesis by simp
qed

theorem C8_witness:
  "\<exists>w'. GetWithOption (exampleCacher\<lparr>repo := readOnlyRepo\<rparr>) ''k'' (Some (\<lambda>u. Inr (VInt 42)))
          (VPtr TInt (Some 0)) None 3 \<lparr>heap = [(TInt, VInt 5)], store = Map.empty, log = []\<rparr>
        = Returns False (Some (ErrOther ''read only'')) w'
      \<and> log w' = [EvGet ''k'', EvQuery, EvSet ''k'' (VInt 42) 10000000003]"
proof -
  let ?w = "\<lparr>heap = [(TInt, VInt 5)], store = Map.empty :: string \<rightharpoonup> goval, log = []\<rparr>"
  let ?c = "exampleCacher\<lparr>repo := readOnlyRepo\<rparr>"
  have res: "resolve (heap ?w) (VPtr TInt (Some 0)) = Slot (RLoc 0) TInt None [(TInt, VInt 5)]"
    by (simp add: resolve_pointer_to_variable)
  have get: "repo_Get (repo ?c) (store ?w) ''k'' = (Inr VNil, Map.empty)"
    by (simp add: example_defs)
  have ex: "Expire (buildOption ?c None) = 10000000000"
    by (simp add: example_defs)
  have valid: "Valid (buildOption ?c None) = None"
    by (simp add: example_defs)
  have draw: "Int63n (sint (Expire (buildOption ?c None)) sdiv 10) 3 = Some 3"
    by (simp add: example_defs signed_divide_int_def)
  have set: "repo_Set (repo ?c) Map.empty ''k'' (VInt 42) (Expire (buildOption ?c None) + 3)
               = (Some (ErrOther ''read only''), Map.empty)"
    by (simp add: example_defs)
  from C8_failed_write_fails_call [of "buildOption ?c None" ?c None "''k''"
      "Some (\<lambda>u. Inr (VInt 42))" "\<lambda>u. Inr (VInt 42)" "VInt 42" ?w "VPtr TInt (Some 0)"
      "RLoc 0" TInt None "[(TInt, VInt 5)]" Map.empty 3 3 "ErrOther ''read only''" Map.empty,
      OF refl valid _ refl refl _ res get draw set]
  show ?thesis by (auto simp: ex)
qed

text \<open>C5, as stated, fails: \<open>Expire\<close> is an int64, and for the largest one the sum
  \<open>Expire + jitter\<close> wraps around. With a draw of 1 the ttl handed to \<open>Set\<close> is the
  smallest int64, below \<open>Expire\<close>.\<close>

theorem C5_ttl_wraps_counterexample:
  "Expire (buildOption exampleCacher (Some expireMax)) = 0x7FFFFFFFFFFFFFFF
   \<and> map_option log (outWorld (GetWithOption exampleCacher ''k'' (Some produce42)
        (VPtr TInt (Some 0)) (Some expireMax) 1 intWorld))
      = Some [EvGet ''k'', EvQuery, EvSet ''k'' (VInt 42) 0x8000000000000000]
   \<and> sint (0x8000000000000000 :: Duration) < sint (0x7FFFFFFFFFFFFFFF :: Duration)"
  by (simp add: example_defs run_defs fixture_defs)

text \<open>C5, amended: when \<open>Expire + Expire / 10\<close> does not exceed \<open>2 ^ 63\<close>, a call that
  misses, gets a value from the producer and gets a draw from \<open>Int63n\<close> hands \<open>Set\<close>
  the ttl \<open>Expire + jitter\<close>, where \<open>jitter\<close> is the draw modulo \<open>Expire / 10\<close> and lies
  in \<open>[0, Expire / 10)\<close>; the ttl lies in \<open>[Expire, Expire + Expire / 10)\<close>.\<close>

theorem C5_ttl_in_jitter_range:
  assumes "opt = buildOption c optFn" "Valid opt = None" "key \<noteq> []" "queryFunc = Some q"
    and "q () = Inr d" "d \<noteq> VNil"
    and "resolve (heap w) v = Slot to toType oldTo h'"
    and "repo_Get (repo c) (store w) key = (Inr VNil, s1)"
    and "Int63n (sint (Expire opt) sdiv 10) r = Some jitter"
    and "sint (Expire opt) + sint (Expire opt) div 10 \<le> 2 ^ 63"
  shows "\<exists>w'. outWorld (GetWithOption c key queryFunc v optFn r w) = Some w'
           \<and> log w' = log w @ [EvGet key, EvQuery, EvSet key d (Expire opt + jitter)]
           \<and> jitter = word_of_int (int r mod (sint (Expire opt) div 10))
           \<and> 0 \<le> sint jitter \<and> sint jitter < sint (Expire opt) div 10
           \<and> sint (Expire opt) \<le> sint (Expire opt + jitter)
           \<and> sint (Expire opt + jitter) < sint (Expire opt) + sint (Expire opt) div 10"
proof -
  obtain res s2 where set: "repo_Set (repo c) s1 key d (Expire opt + jitter) = (res, s2)"
    by (cases "repo_Set (repo c) s1 key d (Expire opt + jitter)")
  let ?w2 = "w\<lparr>heap := h', store := s2,
               log := log w @ [EvGet key, EvQuery, EvSet key d (Expire opt + jitter)]\<rparr>"
  let ?out = "case res of Some e \<Rightarrow> Returns False (Some e) ?w2
              | None \<Rightarrow> coerce c opt d to toType False ?w2"
  have eq: "GetWithOption c key queryFunc v optFn r w = finish oldTo to ?out"
    using GetWithOption_miss_genuine [of key queryFunc q opt c optFn w v to toType oldTo h' s1 d r
        jitter res s2 ?w2] assms set by simp
  have "coerced False ?w2 ?out"
    by (cases res) (simp_all add: heapOnly_refl coerce_coerced)
  then have "coerced False ?w2 (finish oldTo to ?out)"
    using finish_coerced [OF assms(7), of ?w2 False ?out] by simp
  from coerced_outWorld [OF this] eq
  obtain w' where w': "outWorld (GetWithOption c key queryFunc v optFn r w) = Some w'"
    "log w' = log w @ [EvGet key, EvQuery, EvSet key d (Expire opt + jitter)]"
    by auto
  from assms(2) have pos: "0 < sint (Expire opt)"
    by (simp add: Valid_def split: if_splits)
  have j1: "jitter = word_of_int (int r mod (sint (Expire opt) div 10))"
    and j2: "0 \<le> sint jitter" and j3: "sint jitter < sint (Expire opt) div 10"
    and j4: "sint (Expire opt + jitter) = sint (Expire opt) + sint jitter"
    using jitter_range [OF pos assms(9,10)] by blast+
  from j2 j3 j4 have j5: "sint (Expire opt) \<le> sint (Expire opt + jitter)"
    and j6: "sint (Expire opt + jitter) < sint (Expire opt) + sint (Expire opt) div 10"
    by linarith+
  from w' j1 j2 j3 j5 j6 show ?thesis by blast
qed

theorem C5_witness:
  "\<exists>w'. outWorld (GetWithOption exampleCacher ''k'' (Some produce42) (VPtr TInt (Some 0)) None 3
             intWorld) = Some w'
      \<and> log w' = [EvGet ''k'', EvQuery, EvSet ''k'' (VInt 42) 10000000003]
      \<and> sint (10000000000 :: Duration) \<le> sint (10000000003 :: Duration)
      \<and> sint (10000000003 :: Duration) < sint (10000000000 :: Duration) + sint (10000000000 :: Duration) div 10"
proof -
  have ex: "Expire (buildOption exampleCacher None) = 10000000000"
    by (simp add: example_defs)
  have valid: "Valid (buildOption exampleCacher None) = None"
    by (simp add: example_defs)
  have res: "resolve (heap intWorld) (VPtr TInt (Some 0)) = Slot (RLoc 0) TInt None [(TInt, VInt 5)]"
    by (simp add: resolve_pointer_to_variable intWorld_def)
  have get: "repo_Get (repo exampleCacher) (store intWorld) ''k'' = (Inr VNil, Map.empty)"
    by (simp add: example_defs intWorld_def)
  have draw: "Int63n (sint (Expire (buildOption exampleCacher None)) sdiv 10) 3 = Some 3"
    by (simp add: example_defs signed_divide_int_def)
  have fits: "sint (Expire (buildOption exampleCacher None))
               + sint (Expire (buildOption exampleCacher None)) div 10 \<le> 2 ^ 63"
    by (simp add: ex)
  have q: "produce42 () = Inr (VInt 42)"
    by (simp add: produce42_def)
  from C5_ttl_in_jitter_range [of "buildOption exampleCacher None" exampleCacher None "''k''"
      "Some produce42" produce42 "VInt 42" intWorld "VPtr TInt (Some 0)" "RLoc 0" TInt None
      "[(TInt, VInt 5)]" Map.empty 3 3, OF refl valid _ refl q _ res get draw fits]
  show ?thesis by (auto simp: ex intWorld_def)
qed




text \<open>C3 fails on the code for a destination that points to an interface variable: the
  store has no entry, the producer returns no data, negative caching is off, the call returns
  \<open>(false, nil)\<close>, and the deferred assignment of line 180 has replaced the int 7 in
  the destination by the zero value of its type.\<close>

theorem C3_interface_destination_is_reset:
  "heap ifaceWorld = [(TIface, VInt 7)]
   \<and> fst (repo_Get (repo exampleCacher) (store ifaceWorld) ''k'') = Inr VNil
   \<and> produceNothing () = Inr VNil
   \<and> sint (NilCacheExpire (buildOption exampleCacher None)) \<le> 0
   \<and> returned (GetWithOption exampleCacher ''k'' (Some produceNothing) (VPtr TIface (Some 0)) None 0
        ifaceWorld) = Some (False, None)
   \<and> map_option heap (outWorld (GetWithOption exampleCacher ''k'' (Some produceNothing)
        (VPtr TIface (Some 0)) None 0 ifaceWorld)) = Some [(TIface, VInt 0), (TInt, VInt 0)]"
  by (simp add: example_defs run_defs fixture_defs)

text \<open>C4, as stated, fails: with negative caching on, a miss and a producer without
  data, the call returns an error and not \<open>(false, nil)\<close> when the \<open>Set\<close> of the
  negative entry fails, and when \<open>NilData\<close> (here a bool) cannot be converted into the
  destination (an int).\<close>

theorem C4_negative_entry_counterexample:
  "fst (repo_Get (repo readOnlyCacher) (store intWorld) ''k'') = Inr VNil
   \<and> produceNothing () = Inr VNil
   \<and> isCacheNil (buildOption readOnlyCacher (Some cacheNil))
   \<and> returned (GetWithOption readOnlyCacher ''k'' (Some produceNothing) (VPtr TInt (Some 0))
        (Some cacheNil) 0 intWorld) = Some (False, Some (ErrOther ''read only''))
   \<and> isCacheNil (buildOption exampleCacher (Some cacheNilAsBool))
   \<and> returned (GetWithOption exampleCacher ''k'' (Some produceNothing) (VPtr TInt (Some 0))
        (Some cacheNilAsBool) 0 intWorld) = Some (False, Some ErrUnsupported)"
  by (simp add: example_defs run_defs fixture_defs Let_def)

text \<open>C4, amended: with negative caching on, a miss and a producer without data, the call
  issues exactly one \<open>Set\<close>, of \<open>NilData\<close> if it is set and of the zero value of the
  target type otherwise, with the ttl \<open>NilCacheExpire\<close> and no jitter. If that \<open>Set\<close>
  fails the call returns its error. Otherwise the value stored goes through the coercion
  into the destination with \<open>useCache = false\<close>, and the outcome of the coercion is the
  outcome of the call: \<open>(false, nil)\<close> when it succeeds. Whenever the call returns,
  \<open>useCache\<close> is false.\<close>

theorem C4_negative_entry:
  assumes "opt = buildOption c optFn" "Valid opt = None" "key \<noteq> []" "queryFunc = Some q"
    and "q () = Inr VNil" "isCacheNil opt"
    and "resolve (heap w) v = Slot to toType oldTo h'"
    and "repo_Get (repo c) (store w) key = (Inr VNil, s1)"
    and "nilFrom = (if NilData opt \<noteq> VNil then NilData opt else Zero toType)"
    and "repo_Set (repo c) s1 key nilFrom (NilCacheExpire opt) = (res, s2)"
    and "w2 = w\<lparr>heap := h', store := s2,
                 log := log w @ [EvGet key, EvQuery, EvSet key nilFrom (NilCacheExpire opt)]\<rparr>"
  shows "GetWithOption c key queryFunc v optFn r w =
           finish oldTo to
             (case res of
                Some e \<Rightarrow> Returns False (Some e) w2
              | None \<Rightarrow> if nilFrom = VNil then Returns False None w2
                         else coerce c opt nilFrom to toType False w2)
       \<and> (\<exists>w'. outWorld (GetWithOption c key queryFunc v optFn r w) = Some w'
             \<and> store w' = s2
             \<and> log w' = log w @ [EvGet key, EvQuery, EvSet key nilFrom (NilCacheExpire opt)])
       \<and> (\<forall>useCache err. returned (GetWithOption c key queryFunc v optFn r w) = Some (useCache, err)
             \<longrightarrow> \<not> useCache \<and> (res = None \<or> err = res))"
proof -
  let ?G = "GetWithOption c key queryFunc v optFn r w"
  let ?out = "case res of
                Some e \<Rightarrow> Returns False (Some e) w2
              | None \<Rightarrow> if nilFrom = VNil then Returns False None w2
                         else coerce c opt nilFrom to toType False w2"
  have eq: "?G = finish oldTo to ?out"
    using GetWithOption_miss_nil_cache [of key queryFunc q opt c optFn w v to toType oldTo h' s1
        nilFrom res s2 w2 r] assms by simp
  have shape: "map fst (heap w2) = map fst h'"
    using assms(11) by simp
  have "coerced False w2 ?out"
    by (cases res) (simp_all add: heapOnly_refl coerce_coerced)
  then have co: "coerced False w2 (finish oldTo to ?out)"
    by (rule finish_coerced [OF assms(7) shape])
  from coerced_outWorld [OF co] obtain w' where
    ow: "outWorld (finish oldTo to ?out) = Some w'" and sw: "store w' = store w2"
    and lw: "log w' = log w2"
    by blast
  from ow have "outWorld ?G = Some w'" by (simp only: eq)
  moreover from sw assms(11) have "store w' = s2" by simp
  moreover from lw assms(11)
  have "log w' = log w @ [EvGet key, EvQuery, EvSet key nilFrom (NilCacheExpire opt)]" by simp
  ultimately
  have part2: "\<exists>w'. outWorld ?G = Some w' \<and> store w' = s2
      \<and> log w' = log w @ [EvGet key, EvQuery, EvSet key nilFrom (NilCacheExpire opt)]"
    by blast
  have part3: "\<not> useCache \<and> (res = None \<or> err = res)"
    if ret: "returned ?G = Some (useCache, err)" for useCache err
  proof
    from ret have "returned (finish oldTo to ?out) = Some (useCache, err)" by (simp only: eq)
    from coerced_returned [OF co this] show "\<not> useCache" by simp
  next
    show "res = None \<or> err = res"
    proof (cases res)
      case None
      then show ?thesis by simp
    next
      case (Some e)
      from finish_Returns [OF assms(7) shape, of False "Some e"] obtain hf where
        "finish oldTo to (Returns False (Some e) w2) = Returns False (Some e) (w2\<lparr>heap := hf\<rparr>)"
        by blast
      with Some have "finish oldTo to ?out = Returns False (Some e) (w2\<lparr>heap := hf\<rparr>)" by simp
      with ret Some show ?thesis by (simp add: eq)
    qed
  qed
  from eq part2 part3 show ?thesis by blast
qed

theorem C4_witness:
  "\<exists>w'. GetWithOption exampleCacher ''k'' (Some produceNothing) (VPtr TInt (Some 0)) (Some cacheNil) 0
           intWorld = Returns False None w'
      \<and> heap w' = [(TInt, VInt 0)]
      \<and> log w' = [EvGet ''k'', EvQuery, EvSet ''k'' (VInt 0) 1000000000]"
proof -
  let ?opt = "buildOption exampleCacher (Some cacheNil)"
  let ?w2 = "intWorld\<lparr>heap := [(TInt, VInt 5)], store := [''k'' \<mapsto> VInt 0],
               log := log intWorld @ [EvGet ''k'', EvQuery, EvSet ''k'' (VInt 0) (NilCacheExpire ?opt)]\<rparr>"
  have valid: "Valid ?opt = None" and on: "isCacheNil ?opt"
    and nd: "VInt 0 = (if NilData ?opt \<noteq> VNil then NilData ?opt else Zero TInt)"
    and ne: "NilCacheExpire ?opt = 1000000000"
    by (simp_all add: example_defs fixture_defs)
  have q: "produceNothing () = Inr VNil"
    by (simp add: produceNothing_def)
  have res: "resolve (heap intWorld) (VPtr TInt (Some 0)) = Slot (RLoc 0) TInt None [(TInt, VInt 5)]"
    by (simp add: resolve_pointer_to_variable intWorld_def)
  have get: "repo_Get (repo exampleCacher) (store intWorld) ''k'' = (Inr VNil, Map.empty)"
    by (simp add: example_defs intWorld_def)
  have set: "repo_Set (repo exampleCacher) Map.empty ''k'' (VInt 0) (NilCacheExpire ?opt)
               = (None, [''k'' \<mapsto> VInt 0])"
    by (simp add: example_defs)
  have co: "coerce exampleCacher ?opt (VInt 0) (RLoc 0) TInt False ?w2
              = Returns False None (?w2\<lparr>heap := [(TInt, VInt 0)]\<rparr>)"
    by (simp add: example_defs run_defs fixture_defs)
  from C4_negative_entry [of ?opt exampleCacher "Some cacheNil" "''k''" "Some produceNothing"
      produceNothing intWorld "VPtr TInt (Some 0)" "RLoc 0" TInt None "[(TInt, VInt 5)]" Map.empty
      "VInt 0" None "[''k'' \<mapsto> VInt 0]" ?w2 0, OF refl valid _ refl q on res get nd set refl]
  have "GetWithOption exampleCacher ''k'' (Some produceNothing) (VPtr TInt (Some 0)) (Some cacheNil) 0
          intWorld = Returns False None (?w2\<lparr>heap := [(TInt, VInt 0)]\<rparr>)"
    by (simp add: finish_def co)
  then show ?thesis by (simp add: ne intWorld_def)
qed





end
